theory Spec2Isabelle
  imports Complex_Main "HOL-Library.Sublist" "HOL-Library.Code_Target_Nat"
begin

section \<open>Text\<close>

text \<open>
  A Python \<open>str\<close> is a sequence of Unicode code points; a text is modelled as the list of
  its code points. \<open>ascii\<close> embeds an ASCII literal.

  The source file \<open>streamlit_app.py\<close> spells the currency sign, everywhere it uses it, as
  the three characters U+201A U+00C7 U+03C0 (the UTF-8 bytes of the rupee sign read in
  another encoding). The model takes the file as it is written: \<open>currency\<close> is that
  three-character text, and the budget patterns below contain these characters.
\<close>

type_synonym ustr = "nat list"

definition ascii :: "string \<Rightarrow> ustr" where
  "ascii s = map of_char s"

definition currency :: ustr where
  "currency = [8218, 199, 960]"

text \<open>
  \<^verbatim>\<open>\d\<close> of a \<open>str\<close> pattern matches the decimal digits of Unicode (general category Nd):
  660 code points in 66 runs of ten consecutive code points, each run the digits 0 to 9 in
  order. \<open>digit_zeros\<close> lists the zero of every run; \<open>float\<close> reads each of them with
  its value.
\<close>

definition digit_zeros :: "nat list" where
  "digit_zeros =
     [48, 1632, 1776, 1984, 2406, 2534, 2662, 2790, 2918, 3046,
      3174, 3302, 3430, 3558, 3664, 3792, 3872, 4160, 4240, 6112,
      6160, 6470, 6608, 6784, 6800, 6992, 7088, 7232, 7248, 42528,
      43216, 43264, 43472, 43504, 43600, 44016, 65296, 66720, 68912, 69734,
      69872, 69942, 70096, 70384, 70736, 70864, 71248, 71360, 71472, 71904,
      72016, 72784, 73040, 73120, 92768, 92864, 93008, 120782, 120792, 120802,
      120812, 120822, 123200, 123632, 125264, 130032]"

definition is_digit :: "nat \<Rightarrow> bool" where
  "is_digit c \<longleftrightarrow> list_ex (\<lambda>z. z \<le> c \<and> c < z + 10) digit_zeros"

definition digit_value :: "nat \<Rightarrow> nat" where
  "digit_value c =
     (case filter (\<lambda>z. z \<le> c \<and> c < z + 10) digit_zeros of
        [] \<Rightarrow> 0
      | z # _ \<Rightarrow> c - z)"

text \<open>
  \<^verbatim>\<open>\s\<close> matches the white space of Unicode, listed in \<open>is_space\<close>. The case tables are
  modelled on Basic Latin and Latin-1, together with the three other code points whose
  lower-case form contains a character that a pattern or alias of this program mentions
  (U+0130, U+03A0, U+212A). Every other code point is left unchanged by \<open>lower_cp\<close>.
\<close>

definition is_space :: "nat \<Rightarrow> bool" where
  "is_space c \<longleftrightarrow>
     (9 \<le> c \<and> c \<le> 13) \<or> (28 \<le> c \<and> c \<le> 32) \<or> c = 133 \<or> c = 160 \<or> c = 5760 \<or>
     (8192 \<le> c \<and> c \<le> 8202) \<or> c = 8232 \<or> c = 8233 \<or> c = 8239 \<or> c = 8287 \<or> c = 12288"

definition is_upper :: "nat \<Rightarrow> bool" where
  "is_upper c \<longleftrightarrow> (65 \<le> c \<and> c \<le> 90) \<or> (192 \<le> c \<and> c \<le> 222 \<and> c \<noteq> 215)"

definition is_lower :: "nat \<Rightarrow> bool" where
  "is_lower c \<longleftrightarrow>
     (97 \<le> c \<and> c \<le> 122) \<or> (223 \<le> c \<and> c \<le> 255 \<and> c \<noteq> 247) \<or> c = 170 \<or> c = 181 \<or> c = 186"

definition is_cased :: "nat \<Rightarrow> bool" where
  "is_cased c \<longleftrightarrow> is_upper c \<or> is_lower c"

definition lower_cp :: "nat \<Rightarrow> ustr" where
  "lower_cp c =
     (if is_upper c then [c + 32]
      else if c = 304 then [105, 775]
      else if c = 928 then [960]
      else if c = 8490 then [107]
      else [c])"

definition title_cp :: "nat \<Rightarrow> ustr" where
  "title_cp c =
     (if (97 \<le> c \<and> c \<le> 122) \<or> (224 \<le> c \<and> c \<le> 254 \<and> c \<noteq> 247) then [c - 32]
      else if c = 181 then [924]
      else if c = 223 then [83, 115]
      else if c = 255 then [376]
      else [c])"

text \<open>\<open>str.lower()\<close>\<close>

definition lower :: "ustr \<Rightarrow> ustr" where
  "lower t = concat (map lower_cp t)"

text \<open>
  \<open>str.title()\<close>: a character that follows a cased character is lower-cased, any other
  character is title-cased.
\<close>

fun title_from :: "bool \<Rightarrow> ustr \<Rightarrow> ustr" where
  "title_from prev [] = []"
| "title_from prev (c # cs) =
     (if prev then lower_cp c else title_cp c) @ title_from (is_cased c) cs"

definition title :: "ustr \<Rightarrow> ustr" where
  "title t = title_from False t"

text \<open>\<open>sub in s\<close> on strings: \<open>sub\<close> occurs in \<open>s\<close> as a contiguous run.\<close>

fun substr_in :: "ustr \<Rightarrow> ustr \<Rightarrow> bool" where
  "substr_in sub [] = (sub = [])"
| "substr_in sub (c # cs) = (prefix sub (c # cs) \<or> substr_in sub cs)"


section \<open>Regular expressions\<close>

text \<open>
  The three patterns of \<open>parse_query\<close> are sequences of single-character atoms, each taken
  once, optionally (\<open>?\<close>) or greedily repeated (\<open>*\<close>, \<open>+\<close>), with one capture group of the
  form \<open>(a+)\<close>. \<open>CapOne a\<close> followed by \<open>CapStar a\<close> is that group: the first character
  opens the captured text, every further one extends it.

  \<open>match_here\<close> is the backtracking matcher of \<open>re\<close> at a fixed start position: a greedy
  piece first takes a character and gives it back when the rest of the pattern fails. Its
  result is the text of group 1. \<open>re_search\<close> tries the start positions from left to right.
\<close>

datatype atom = Chr nat | Digit | Space | Alt atom atom

fun accepts :: "atom \<Rightarrow> nat \<Rightarrow> bool" where
  "accepts (Chr x) c = (c = x)"
| "accepts Digit c = is_digit c"
| "accepts Space c = is_space c"
| "accepts (Alt a b) c = (accepts a c \<or> accepts b c)"

datatype piece = One atom | Opt atom | Star atom | CapOne atom | CapStar atom

fun match_here :: "piece list \<Rightarrow> ustr \<Rightarrow> ustr \<Rightarrow> ustr option" where
  "match_here [] cap s = Some cap"
| "match_here (One a # ps) cap [] = None"
| "match_here (One a # ps) cap (c # cs) =
     (if accepts a c then match_here ps cap cs else None)"
| "match_here (Opt a # ps) cap [] = match_here ps cap []"
| "match_here (Opt a # ps) cap (c # cs) =
     (if accepts a c
      then (case match_here ps cap cs of
              Some g \<Rightarrow> Some g
            | None \<Rightarrow> match_here ps cap (c # cs))
      else match_here ps cap (c # cs))"
| "match_here (Star a # ps) cap [] = match_here ps cap []"
| "match_here (Star a # ps) cap (c # cs) =
     (if accepts a c
      then (case match_here (Star a # ps) cap cs of
              Some g \<Rightarrow> Some g
            | None \<Rightarrow> match_here ps cap (c # cs))
      else match_here ps cap (c # cs))"
| "match_here (CapOne a # ps) cap [] = None"
| "match_here (CapOne a # ps) cap (c # cs) =
     (if accepts a c then match_here ps [c] cs else None)"
| "match_here (CapStar a # ps) cap [] = match_here ps cap []"
| "match_here (CapStar a # ps) cap (c # cs) =
     (if accepts a c
      then (case match_here (CapStar a # ps) (cap @ [c]) cs of
              Some g \<Rightarrow> Some g
            | None \<Rightarrow> match_here ps cap (c # cs))
      else match_here ps cap (c # cs))"

fun re_search :: "piece list \<Rightarrow> ustr \<Rightarrow> ustr option" where
  "re_search p [] = match_here p [] []"
| "re_search p (c # cs) =
     (case match_here p [] (c # cs) of
        Some g \<Rightarrow> Some g
      | None \<Rightarrow> re_search p cs)"

definition lit :: "string \<Rightarrow> piece list" where
  "lit s = map (\<lambda>c. One (Chr (of_char c))) s"

definition group_plus :: "atom \<Rightarrow> piece list" where
  "group_plus a = [CapOne a, CapStar a]"

text \<open>\<^verbatim>\<open>(\d+)\s*bhk\<close>\<close>

definition bhk_rx :: "piece list" where
  "bhk_rx = group_plus Digit @ [Star Space] @ lit ''bhk''"

text \<open>
  The common head of the two budget patterns as the file has it: \<open>under\<close>, \<^verbatim>\<open>\s*\<close>, the
  characters U+201A and U+00C7, U+03C0 under the \<open>?\<close>, \<^verbatim>\<open>\s*\<close>, and the group \<^verbatim>\<open>([\d.]+)\<close>,
  then \<^verbatim>\<open>\s*\<close>.
\<close>

definition under_rx :: "piece list" where
  "under_rx =
     lit ''under'' @ [Star Space, One (Chr 8218), One (Chr 199), Opt (Chr 960), Star Space]
       @ group_plus (Alt Digit (Chr 46)) @ [Star Space]"

definition cr_rx :: "piece list" where
  "cr_rx = under_rx @ lit ''cr''"

definition lakh_rx :: "piece list" where
  "lakh_rx = under_rx @ lit ''lakh''"


section \<open>The query parser\<close>

datatype error = ValueError

text \<open>
  \<open>float(s)\<close> on the texts that reach it, which consist of digits and dots: a text with
  two dots or without a digit is no number and raises \<open>ValueError\<close> (\<open>None\<close> here). The
  value is kept exact, as a rational; the rounding of binary floating point is not
  modelled.
\<close>

definition num_value :: "ustr \<Rightarrow> nat" where
  "num_value ds = foldl (\<lambda>n c. 10 * n + digit_value c) 0 ds"

definition py_float :: "ustr \<Rightarrow> rat option" where
  "py_float s =
     (let ip = takeWhile is_digit s; r = dropWhile is_digit s
      in case r of
           [] \<Rightarrow> (if ip = [] then None else Some (of_nat (num_value ip)))
         | d # fp \<Rightarrow>
             (if d = 46 \<and> list_all is_digit fp \<and> (ip \<noteq> [] \<or> fp \<noteq> [])
              then Some (of_nat (num_value ip) + of_nat (num_value fp) / 10 ^ length fp)
              else None))"

text \<open>
  The dictionary \<open>cities\<close>; a \<open>dict\<close> is iterated in insertion order, so it is an
  association list.
\<close>

definition cities :: "(string \<times> string list) list" where
  "cities =
     [(''pune'', [''pune'', ''pimpri'', ''chinchwad'']),
      (''mumbai'', [''mumbai'', ''bombay'', ''chembur'']),
      (''bangalore'', [''bangalore'', ''bengaluru''])]"

text \<open>The inner loop over the variations of one city; \<open>break\<close> leaves this loop only.\<close>

fun scan_variations :: "string \<Rightarrow> string list \<Rightarrow> ustr \<Rightarrow> ustr option \<Rightarrow> ustr option" where
  "scan_variations city_name [] query_lower city = city"
| "scan_variations city_name (variation # variations) query_lower city =
     (if substr_in (ascii variation) query_lower
      then Some (title (ascii city_name))
      else scan_variations city_name variations query_lower city)"

text \<open>The outer loop over \<open>cities.items()\<close>, which runs to the end of the dictionary.\<close>

fun scan_cities :: "(string \<times> string list) list \<Rightarrow> ustr \<Rightarrow> ustr option \<Rightarrow> ustr option" where
  "scan_cities [] query_lower city = city"
| "scan_cities ((city_name, variations) # rest) query_lower city =
     scan_cities rest query_lower (scan_variations city_name variations query_lower city)"

definition extract_city :: "ustr \<Rightarrow> ustr option" where
  "extract_city query_lower = scan_cities cities query_lower None"

definition extract_bhk :: "ustr \<Rightarrow> ustr option" where
  "extract_bhk query_lower =
     (case re_search bhk_rx query_lower of
        None \<Rightarrow> None
      | Some g \<Rightarrow> Some (g @ ascii ''BHK''))"

text \<open>
  The budget step: the crore pattern first, then the lakh pattern, each assigning
  \<open>budget_max\<close> when it matches. \<open>float\<close> raises before the assignment.
\<close>

definition lakh_step :: "ustr \<Rightarrow> rat option \<Rightarrow> error + rat option" where
  "lakh_step query_lower budget =
     (case re_search lakh_rx query_lower of
        None \<Rightarrow> Inr budget
      | Some g \<Rightarrow>
          (case py_float g of
             None \<Rightarrow> Inl ValueError
           | Some x \<Rightarrow> Inr (Some (x * 100000))))"

definition extract_budget :: "ustr \<Rightarrow> error + rat option" where
  "extract_budget query_lower =
     (case re_search cr_rx query_lower of
        None \<Rightarrow> lakh_step query_lower None
      | Some g \<Rightarrow>
          (case py_float g of
             None \<Rightarrow> Inl ValueError
           | Some x \<Rightarrow> lakh_step query_lower (Some (x * 10000000))))"

definition extract_possession :: "ustr \<Rightarrow> ustr option" where
  "extract_possession query_lower =
     (if substr_in (ascii ''ready'') query_lower \<or> substr_in (ascii ''ready to move'') query_lower
      then Some (ascii ''READY_TO_MOVE'')
      else if substr_in (ascii ''construction'') query_lower
              \<or> substr_in (ascii ''under construction'') query_lower
      then Some (ascii ''UNDER_CONSTRUCTION'')
      else None)"

record filters =
  city :: "ustr option"
  bhk :: "ustr option"
  budget_max :: "rat option"
  possession :: "ustr option"

definition parse_query :: "ustr \<Rightarrow> error + filters" where
  "parse_query query =
     (let query_lower = lower query
      in case extract_budget query_lower of
           Inl e \<Rightarrow> Inl e
         | Inr b \<Rightarrow>
             Inr \<lparr>city = extract_city query_lower,
                  bhk = extract_bhk query_lower,
                  budget_max = b,
                  possession = extract_possession query_lower\<rparr>)"


section \<open>The filter engine\<close>

text \<open>
  A row of the joined table, with the columns the modelled functions read. A missing cell
  (\<open>NaN\<close>) is \<open>None\<close>. Prices are exact rationals.
\<close>

record listing =
  fullAddress :: "ustr option"
  type :: "ustr option"
  price :: "rat option"
  status :: "ustr option"

text \<open>
  One cell of \<open>Series.str.contains(pat, case=False, na=False)\<close>. pandas compiles \<open>pat\<close> as a
  regular expression; for a pattern without metacharacters, as every city name that
  \<open>parse_query\<close> produces, that is the case-insensitive substring test below. The model
  covers such patterns (\<open>plain_pattern\<close>) only.
\<close>

definition str_contains :: "ustr \<Rightarrow> ustr option \<Rightarrow> bool" where
  "str_contains pat cell =
     (case cell of None \<Rightarrow> False | Some s \<Rightarrow> substr_in (lower pat) (lower s))"

definition plain_pattern :: "ustr \<Rightarrow> bool" where
  "plain_pattern pat = list_all (\<lambda>c. c \<notin> set (ascii ''.^$*+?{}[]|()'') \<and> c \<noteq> 92) pat"

text \<open>
  The row masks; a comparison with a missing cell is false. A filter field is applied
  under \<open>if filters[...]\<close>, that is when it is neither \<open>None\<close> nor empty nor zero.
\<close>

definition city_mask :: "ustr \<Rightarrow> listing \<Rightarrow> bool" where
  "city_mask c row = str_contains c (fullAddress row)"

definition bhk_mask :: "ustr \<Rightarrow> listing \<Rightarrow> bool" where
  "bhk_mask b row = (type row = Some b)"

definition budget_mask :: "rat \<Rightarrow> listing \<Rightarrow> bool" where
  "budget_mask m row = (case price row of None \<Rightarrow> False | Some p \<Rightarrow> p \<le> m)"

definition possession_mask :: "ustr \<Rightarrow> listing \<Rightarrow> bool" where
  "possession_mask st row = (status row = Some st)"

text \<open>\<open>DataFrame.head(n)\<close>, that is \<open>iloc[:n]\<close>: a negative \<open>n\<close> drops the last \<open>-n\<close> rows.\<close>

definition df_head :: "int \<Rightarrow> 'a list \<Rightarrow> 'a list" where
  "df_head n df = (if 0 \<le> n then take (nat n) df else take (nat (int (length df) + n)) df)"

definition search_properties :: "listing list \<Rightarrow> filters \<Rightarrow> int \<Rightarrow> listing list" where
  "search_properties df fs limit =
     (if df = [] then df
      else
        let result_df = df;
            result_df = (case city fs of
                           Some c \<Rightarrow> if c \<noteq> [] then filter (city_mask c) result_df
                                     else result_df
                         | None \<Rightarrow> result_df);
            result_df = (case bhk fs of
                           Some b \<Rightarrow> if b \<noteq> [] then filter (bhk_mask b) result_df
                                     else result_df
                         | None \<Rightarrow> result_df);
            result_df = (case budget_max fs of
                           Some m \<Rightarrow> if m \<noteq> 0 then filter (budget_mask m) result_df
                                     else result_df
                         | None \<Rightarrow> result_df);
            result_df = (case possession fs of
                           Some st \<Rightarrow> if st \<noteq> [] then filter (possession_mask st) result_df
                                      else result_df
                         | None \<Rightarrow> result_df)
        in df_head limit result_df)"


section \<open>Number formatting\<close>

text \<open>\<open>str(n)\<close> for a natural number.\<close>

fun str_nat :: "nat \<Rightarrow> ustr" where
  "str_nat n = (if n < 10 then [48 + n] else str_nat (n div 10) @ [48 + n mod 10])"

declare str_nat.simps [simp del]

text \<open>
  \<open>format(x, '.df')\<close>: \<open>x\<close> rounded to \<open>d\<close> decimals, ties to even, with a minus sign for a
  negative \<open>x\<close>. The rounding is that of the exact value.
\<close>

definition round_half_even :: "rat \<Rightarrow> int" where
  "round_half_even x =
     (let f = \<lfloor>x\<rfloor>; r = x - of_int f
      in if r < 1 / 2 then f else if 1 / 2 < r then f + 1 else if even f then f else f + 1)"

definition zfill :: "nat \<Rightarrow> ustr \<Rightarrow> ustr" where
  "zfill d s = replicate (d - length s) 48 @ s"

definition format_f :: "nat \<Rightarrow> rat \<Rightarrow> ustr" where
  "format_f d x =
     (let n = nat (round_half_even (\<bar>x\<bar> * 10 ^ d))
      in (if x < 0 then ascii ''-'' else [])
         @ str_nat (n div 10 ^ d)
         @ (if d = 0 then [] else ascii ''.'' @ zfill d (str_nat (n mod 10 ^ d))))"


section \<open>The summary generator\<close>

fun dropna :: "'a option list \<Rightarrow> 'a list" where
  "dropna [] = []"
| "dropna (None # xs) = dropna xs"
| "dropna (Some x # xs) = x # dropna xs"

definition mean :: "rat list \<Rightarrow> rat" where
  "mean xs = sum_list xs / of_nat (length xs)"

fun join :: "ustr \<Rightarrow> ustr list \<Rightarrow> ustr" where
  "join sep [] = []"
| "join sep [x] = x"
| "join sep (x # y # ys) = x @ sep @ join sep (y # ys)"

definition no_results :: ustr where
  "no_results =
     ascii ''No properties found matching your criteria. Try adjusting your budget or location preferences.''"

definition budget_str :: "rat \<Rightarrow> ustr" where
  "budget_str b =
     (if 10000000 \<le> b then currency @ format_f 1 (b / 10000000) @ ascii '' Cr''
      else currency @ format_f 0 (b / 100000) @ ascii '' L'')"

definition avg_str :: "rat \<Rightarrow> ustr" where
  "avg_str avg_price =
     (if 10000000 \<le> avg_price then currency @ format_f 2 (avg_price / 10000000) @ ascii '' Cr''
      else currency @ format_f 0 (avg_price / 100000) @ ascii '' L'')"

text \<open>The first sentence: the parts joined by a space, with the final period.\<close>

definition summary_head :: "listing list \<Rightarrow> filters \<Rightarrow> ustr" where
  "summary_head results fs =
     (let count = length results;
          parts = [ascii ''Found '' @ str_nat count @ ascii '' ''
                     @ (if count = 1 then ascii ''property'' else ascii ''properties'')];
          parts = (case bhk fs of
                     Some b \<Rightarrow> if b \<noteq> []
                               then parts @ [ascii ''matching your '' @ b @ ascii '' requirement'']
                               else parts
                   | None \<Rightarrow> parts);
          parts = (case city fs of
                     Some c \<Rightarrow> if c \<noteq> [] then parts @ [ascii ''in '' @ c] else parts
                   | None \<Rightarrow> parts);
          parts = (case budget_max fs of
                     Some m \<Rightarrow> if m \<noteq> 0 then parts @ [ascii ''under '' @ budget_str m]
                               else parts
                   | None \<Rightarrow> parts)
      in join (ascii '' '') parts @ ascii ''.'')"

definition generate_summary :: "listing list \<Rightarrow> filters \<Rightarrow> ustr" where
  "generate_summary results fs =
     (if length results = 0 then no_results
      else
        let summary = summary_head results fs;
            prices = dropna (map price results)
        in if 0 < length prices
           then summary @ ascii '' Average price is around '' @ avg_str (mean prices) @ ascii ''.''
           else summary)"


section \<open>The card formatter\<close>

text \<open>
  The price line of \<open>format_property_card\<close>: \<open>price_str\<close> is computed from the \<open>price\<close>
  cell alone.
\<close>

definition price_str :: "listing \<Rightarrow> ustr" where
  "price_str row =
     (case price row of
        None \<Rightarrow> ascii ''Price on request''
      | Some price_raw \<Rightarrow>
          if 0 < price_raw
          then (if 10000000 \<le> price_raw
                then currency @ format_f 2 (price_raw / 10000000) @ ascii '' Cr''
                else currency @ format_f 2 (price_raw / 100000) @ ascii '' L'')
          else ascii ''Price on request'')"


section \<open>Notions of the specification\<close>

text \<open>An alias of the dictionary entry occurs in the lower-cased query.\<close>

definition alias_occurs :: "ustr \<Rightarrow> string \<times> string list \<Rightarrow> bool" where
  "alias_occurs query_lower entry = list_ex (\<lambda>v. substr_in (ascii v) query_lower) (snd entry)"

text \<open>The filter with every field null.\<close>

definition no_filters :: filters where
  "no_filters = \<lparr>city = None, bhk = None, budget_max = None, possession = None\<rparr>"

text \<open>
  A row satisfies every non-null predicate of a filter, in the words of the specification:
  the city is a substring of the full address up to case, the unit type and the status
  are equal to the filter's, the price is at most the budget.
\<close>

definition satisfies :: "filters \<Rightarrow> listing \<Rightarrow> bool" where
  "satisfies fs row \<longleftrightarrow>
     (\<forall>c. city fs = Some c \<longrightarrow> (\<exists>a. fullAddress row = Some a \<and> sublist (lower c) (lower a))) \<and>
     (\<forall>b. bhk fs = Some b \<longrightarrow> type row = Some b) \<and>
     (\<forall>m. budget_max fs = Some m \<longrightarrow> (\<exists>p. price row = Some p \<and> p \<le> m)) \<and>
     (\<forall>st. possession fs = Some st \<longrightarrow> status row = Some st)"

text \<open>The rows that \<open>search_properties\<close> keeps: the masks of the fields it applies.\<close>

definition keeps :: "filters \<Rightarrow> listing \<Rightarrow> bool" where
  "keeps fs row \<longleftrightarrow>
     (case city fs of Some c \<Rightarrow> c = [] \<or> city_mask c row | None \<Rightarrow> True) \<and>
     (case bhk fs of Some b \<Rightarrow> b = [] \<or> bhk_mask b row | None \<Rightarrow> True) \<and>
     (case budget_max fs of Some m \<Rightarrow> m = 0 \<or> budget_mask m row | None \<Rightarrow> True) \<and>
     (case possession fs of Some st \<Rightarrow> st = [] \<or> possession_mask st row | None \<Rightarrow> True)"

text \<open>A listing with the given cells, for the examples.\<close>

definition row_of :: "ustr option \<Rightarrow> ustr option \<Rightarrow> rat option \<Rightarrow> ustr option \<Rightarrow> listing" where
  "row_of a t p s = \<lparr>fullAddress = a, type = t, price = p, status = s\<rparr>"

definition priced :: "rat \<Rightarrow> listing" where
  "priced p = row_of None None (Some p) None"

text \<open>
  A text on which both budget patterns match: it holds the characters of the patterns,
  upper-case U+00C7 included.
\<close>

definition both_budgets :: ustr where
  "both_budgets = ascii ''under '' @ [8218, 199] @ ascii ''2 cr under '' @ [8218, 199, 960] @ ascii ''50 lakh''"

text \<open>A table and a filter for the examples.\<close>

definition pune_filter :: filters where
  "pune_filter =
     \<lparr>city = Some (ascii ''Pune''), bhk = Some (ascii ''3BHK''),
      budget_max = Some 12000000, possession = None\<rparr>"

definition pune_rows :: "listing list" where
  "pune_rows =
     [row_of (Some (ascii ''Baner Road, PUNE'')) (Some (ascii ''3BHK'')) (Some 9500000) None,
      row_of (Some (ascii ''Chembur, Mumbai'')) (Some (ascii ''3BHK'')) (Some 9000000) None,
      row_of (Some (ascii ''Wakad, Pune'')) (Some (ascii ''3BHK'')) None None,
      row_of (Some (ascii ''Kothrud, Pune'')) (Some (ascii ''3BHK'')) (Some 11000000) None]"

text \<open>
  The two budget patterns in the words of the specification: \<open>under\<close>, an optional
  currency symbol (the rupee sign U+20B9), a number, and \<open>cr\<close> or \<open>lakh\<close>.
\<close>

definition spec_cr_rx :: "piece list" where
  "spec_cr_rx =
     lit ''under'' @ [Star Space, Opt (Chr 8377), Star Space]
       @ group_plus (Alt Digit (Chr 46)) @ [Star Space] @ lit ''cr''"

definition spec_lakh_rx :: "piece list" where
  "spec_lakh_rx =
     lit ''under'' @ [Star Space, Opt (Chr 8377), Star Space]
       @ group_plus (Alt Digit (Chr 46)) @ [Star Space] @ lit ''lakh''"

text \<open>
  A text writes a number with two decimal places: ASCII digits, a point and two ASCII
  digits, whose value, read by \<open>dec_value\<close>, is within half a hundredth of the number.
\<close>

definition is_ascii_digit :: "nat \<Rightarrow> bool" where
  "is_ascii_digit c \<longleftrightarrow> 48 \<le> c \<and> c \<le> 57"

definition dec_value :: "ustr \<Rightarrow> nat" where
  "dec_value ds = foldl (\<lambda>n c. 10 * n + (c - 48)) 0 ds"

definition two_decimals :: "ustr \<Rightarrow> rat \<Rightarrow> bool" where
  "two_decimals t x \<longleftrightarrow>
     (\<exists>ip fp. t = ip @ ascii ''.'' @ fp \<and> ip \<noteq> [] \<and> list_all is_ascii_digit ip \<and>
        length fp = 2 \<and> list_all is_ascii_digit fp \<and>
        \<bar>of_nat (dec_value ip) + of_nat (dec_value fp) / 100 - x\<bar> \<le> 1 / 200)"


section \<open>Substrings\<close>

lemma substr_in_iff_sublist: "substr_in sub s \<longleftrightarrow> sublist sub s"
  by (induction s) (simp_all add: sublist_Cons_right)

lemma substr_in_appendD:
  assumes "substr_in (a @ b) s"
  shows "substr_in a s"
proof -
  from assms obtain ps ss where "s = ps @ (a @ b) @ ss"
    unfolding substr_in_iff_sublist sublist_def by blast
  then have "s = ps @ a @ (b @ ss)"
    by simp
  then show ?thesis
    unfolding substr_in_iff_sublist sublist_def by blast
qed


section \<open>The budget patterns never match a lower-cased text\<close>

text \<open>
  A match consumes, for every single-character piece of the pattern, that character of
  the text. Both budget patterns hold the piece for U+00C7, and \<open>lower\<close> returns no text
  with this character: it is upper case.
\<close>

lemma match_here_needs_chr:
  "match_here ps cap s = Some g \<Longrightarrow> One (Chr x) \<in> set ps \<Longrightarrow> x \<in> set s"
  by (induction ps cap s rule: match_here.induct) (auto split: if_splits option.splits)

lemma re_search_needs_chr:
  "re_search ps s = Some g \<Longrightarrow> One (Chr x) \<in> set ps \<Longrightarrow> x \<in> set s"
  by (induction s) (auto split: option.splits dest: match_here_needs_chr)

lemma lower_cp_no_cedilla: "199 \<notin> set (lower_cp c)"
  by (auto simp: lower_cp_def is_upper_def)

lemma lower_no_cedilla: "199 \<notin> set (lower q)"
  by (simp add: lower_def lower_cp_no_cedilla)

lemma cedilla_in_under_rx: "One (Chr 199) \<in> set under_rx"
  by (simp add: under_rx_def)

lemma cr_rx_lower: "re_search cr_rx (lower q) = None"
proof (cases "re_search cr_rx (lower q)")
  case None
  then show ?thesis .
next
  case (Some g)
  have "One (Chr 199) \<in> set cr_rx"
    by (simp add: cr_rx_def cedilla_in_under_rx)
  with Some have "199 \<in> set (lower q)"
    by (rule re_search_needs_chr)
  with lower_no_cedilla show ?thesis by simp
qed

lemma lakh_rx_lower: "re_search lakh_rx (lower q) = None"
proof (cases "re_search lakh_rx (lower q)")
  case None
  then show ?thesis .
next
  case (Some g)
  have "One (Chr 199) \<in> set lakh_rx"
    by (simp add: lakh_rx_def cedilla_in_under_rx)
  with Some have "199 \<in> set (lower q)"
    by (rule re_search_needs_chr)
  with lower_no_cedilla show ?thesis by simp
qed

lemma extract_budget_lower: "extract_budget (lower q) = Inr None"
  by (simp add: extract_budget_def lakh_step_def cr_rx_lower lakh_rx_lower)

lemma parse_query_returns:
  "parse_query q =
     Inr \<lparr>city = extract_city (lower q), bhk = extract_bhk (lower q),
          budget_max = None, possession = extract_possession (lower q)\<rparr>"
  by (simp add: parse_query_def extract_budget_lower Let_def)


section \<open>The budget step\<close>

text \<open>
  The crore pattern is tried first and the lakh pattern second, and the last assignment
  stands. The example text holds the characters of the patterns as the file spells them.
\<close>

lemma budget_lakh_overrides_crore:
  assumes "re_search cr_rx s = Some g1" and "py_float g1 = Some x1"
    and "re_search lakh_rx s = Some g2" and "py_float g2 = Some x2"
  shows "extract_budget s = Inr (Some (x2 * 100000))"
  using assms by (simp add: extract_budget_def lakh_step_def)

lemma budget_lakh_overrides_crore_example:
  "re_search cr_rx both_budgets = Some (ascii ''2'') \<and> py_float (ascii ''2'') = Some 2 \<and>
   re_search lakh_rx both_budgets = Some (ascii ''50'') \<and> py_float (ascii ''50'') = Some 50 \<and>
   extract_budget both_budgets = Inr (Some 5000000)"
proof -
  have c: "re_search cr_rx both_budgets = Some (ascii ''2'')" by code_simp
  have cf: "py_float (ascii ''2'') = Some 2" by code_simp
  have l: "re_search lakh_rx both_budgets = Some (ascii ''50'')" by code_simp
  have lf: "py_float (ascii ''50'') = Some 50" by code_simp
  from budget_lakh_overrides_crore [OF c cf l lf] c cf l lf show ?thesis by simp
qed

text \<open>The patterns of the specification on the query with two budgets.\<close>

lemma spec_patterns_two_budgets:
  "re_search spec_cr_rx (lower (ascii ''under 2 cr under 50 lakh'')) = Some (ascii ''2'') \<and>
   re_search spec_lakh_rx (lower (ascii ''under 2 cr under 50 lakh'')) = Some (ascii ''50'') \<and>
   py_float (ascii ''50'') = Some 50"
  by code_simp


section \<open>The city loop\<close>

lemma scan_variations_eq:
  "scan_variations n vs ql c =
     (if list_ex (\<lambda>v. substr_in (ascii v) ql) vs then Some (title (ascii n)) else c)"
  by (induction vs) simp_all

lemma scan_cities_eq:
  "scan_cities cs ql c =
     (if filter (alias_occurs ql) cs = [] then c
      else Some (title (ascii (fst (last (filter (alias_occurs ql) cs))))))"
  by (induction cs arbitrary: c) (auto simp: scan_variations_eq alias_occurs_def)


text \<open>With several matching cities, the last one in iteration order is returned.\<close>

lemma parse_query_city_last:
  "\<exists>f. parse_query q = Inr f \<and>
     city f =
       (if filter (alias_occurs (lower q)) cities = [] then None
        else Some (title (ascii (fst (last (filter (alias_occurs (lower q)) cities))))))"
  by (simp add: parse_query_returns extract_city_def scan_cities_eq)


section \<open>The search as a filter\<close>

lemma df_head_nonneg: "0 \<le> n \<Longrightarrow> df_head n xs = take (nat n) xs"
  by (simp add: df_head_def)

lemma filter_keeps_steps:
  "filter (keeps fs) df =
     (let r = df;
          r = (case city fs of
                 Some c \<Rightarrow> if c \<noteq> [] then filter (city_mask c) r else r | None \<Rightarrow> r);
          r = (case bhk fs of
                 Some b \<Rightarrow> if b \<noteq> [] then filter (bhk_mask b) r else r | None \<Rightarrow> r);
          r = (case budget_max fs of
                 Some m \<Rightarrow> if m \<noteq> 0 then filter (budget_mask m) r else r | None \<Rightarrow> r);
          r = (case possession fs of
                 Some st \<Rightarrow> if st \<noteq> [] then filter (possession_mask st) r else r | None \<Rightarrow> r)
      in r)"
  by (auto simp: keeps_def Let_def split: option.splits intro!: filter_cong)

lemma search_properties_eq:
  "search_properties df fs limit = df_head limit (filter (keeps fs) df)"
proof (cases "df = []")
  case True
  then show ?thesis by (simp add: search_properties_def df_head_def)
next
  case False
  then show ?thesis
    unfolding filter_keeps_steps search_properties_def by (simp add: Let_def)
qed

lemma keeps_satisfies:
  assumes "city fs \<noteq> Some []" "bhk fs \<noteq> Some []"
    and "budget_max fs \<noteq> Some 0" "possession fs \<noteq> Some []"
  shows "keeps fs = satisfies fs"
proof
  fix row
  show "keeps fs row = satisfies fs row"
    using assms
    by (auto simp: keeps_def satisfies_def city_mask_def bhk_mask_def budget_mask_def
        possession_mask_def str_contains_def substr_in_iff_sublist split: option.splits)
qed

lemma search_no_filters: "search_properties df no_filters limit = df_head limit df"
  by (simp add: search_properties_def no_filters_def df_head_def)

text \<open>A budget of zero is not applied: the filter behaves as the one without a budget.\<close>

lemma search_budget_zero:
  "search_properties df (fs\<lparr>budget_max := Some 0\<rparr>) limit =
   search_properties df (fs\<lparr>budget_max := None\<rparr>) limit"
  by (simp add: search_properties_def)

lemma summary_budget_zero:
  "generate_summary results (fs\<lparr>budget_max := Some 0\<rparr>) =
   generate_summary results (fs\<lparr>budget_max := None\<rparr>)"
  by (simp add: generate_summary_def summary_head_def)

lemma search_properties_take:
  assumes "0 \<le> limit"
    and "city fs \<noteq> Some []" "bhk fs \<noteq> Some []"
    and "budget_max fs \<noteq> Some 0" "possession fs \<noteq> Some []"
  shows "search_properties df fs limit = take (nat limit) (filter (satisfies fs) df)"
  using assms by (simp add: search_properties_eq df_head_nonneg keeps_satisfies)

lemma subseq_take_filter: "subseq (take n (filter P xs)) xs"
proof -
  have "subseq (take n (filter P xs)) (filter P xs)"
    by (rule sublist_imp_subseq) (rule sublist_take)
  moreover have "subseq (filter P xs) xs"
    by (rule subseq_filter_left)
  ultimately show ?thesis
    by (rule subseq_order.trans)
qed


section \<open>Digits of other scripts\<close>

text \<open>
  The unit-type pattern takes a decimal digit of any script: the Devanagari digit three
  (U+0969) before \<open>bhk\<close> is a unit type, and \<open>float\<close> reads Devanagari 3.5.
\<close>

lemma devanagari_bhk:
  "parse_query ([2409] @ ascii '' bhk'') =
     Inr \<lparr>city = None, bhk = Some ([2409] @ ascii ''BHK''), budget_max = None,
          possession = None\<rparr>"
  by code_simp

lemma devanagari_float: "py_float ([2409, 46, 2411]) = Some (7 / 2)"
  by code_simp


section \<open>Absent patterns give null fields\<close>

lemma substr_in_mono:
  assumes "sublist a b" "substr_in b s"
  shows "substr_in a s"
proof -
  from assms(1) obtain p q where b: "b = p @ a @ q"
    unfolding sublist_def by blast
  from assms(2) obtain ps ss where "s = ps @ b @ ss"
    unfolding substr_in_iff_sublist sublist_def by blast
  with b have "s = (ps @ p) @ a @ (q @ ss)"
    by simp
  then show ?thesis
    unfolding substr_in_iff_sublist sublist_def by blast
qed

lemma ready_in_ready_to_move: "sublist (ascii ''ready'') (ascii ''ready to move'')"
proof -
  have "ascii ''ready to move'' = [] @ ascii ''ready'' @ ascii '' to move''"
    by (simp add: ascii_def)
  then show ?thesis unfolding sublist_def by blast
qed

lemma construction_in_under_construction:
  "sublist (ascii ''construction'') (ascii ''under construction'')"
proof -
  have "ascii ''under construction'' = ascii ''under '' @ ascii ''construction'' @ []"
    by (simp add: ascii_def)
  then show ?thesis unfolding sublist_def by blast
qed

lemma extract_possession_none:
  assumes "\<not> substr_in (ascii ''ready'') ql" "\<not> substr_in (ascii ''construction'') ql"
  shows "extract_possession ql = None"
proof -
  from assms(1) have "\<not> substr_in (ascii ''ready to move'') ql"
    using substr_in_mono [OF ready_in_ready_to_move] by blast
  moreover from assms(2) have "\<not> substr_in (ascii ''under construction'') ql"
    using substr_in_mono [OF construction_in_under_construction] by blast
  ultimately show ?thesis
    using assms by (simp add: extract_possession_def)
qed

lemma extract_city_none:
  assumes "\<forall>entry \<in> set cities. \<not> alias_occurs ql entry"
  shows "extract_city ql = None"
proof -
  from assms have "filter (alias_occurs ql) cities = []"
    by (simp add: filter_empty_conv)
  then show ?thesis
    by (simp add: extract_city_def scan_cities_eq)
qed

lemma extract_bhk_none: "re_search bhk_rx ql = None \<Longrightarrow> extract_bhk ql = None"
  by (simp add: extract_bhk_def)


section \<open>Decimal rendering\<close>

text \<open>
  \<open>format_f 2\<close> writes a non-negative number as digits, a point and two digits, and the
  number written is within half a hundredth of the number given.
\<close>

lemma str_nat_digits: "list_all is_ascii_digit (str_nat n) \<and> str_nat n \<noteq> []"
proof (induction n rule: str_nat.induct)
  case (1 n)
  show ?case
  proof (cases "n < 10")
    case True
    then show ?thesis by (subst (1 2) str_nat.simps) (simp add: is_ascii_digit_def)
  next
    case False
    with 1 have "list_all is_ascii_digit (str_nat (n div 10))" by simp
    moreover have "is_ascii_digit (48 + n mod 10)" by (simp add: is_ascii_digit_def)
    ultimately show ?thesis using False by (subst (1 2) str_nat.simps) simp
  qed
qed

lemma dec_value_snoc: "dec_value (ds @ [d]) = 10 * dec_value ds + (d - 48)"
  by (simp add: dec_value_def)

lemma dec_value_str_nat: "dec_value (str_nat n) = n"
proof (induction n rule: str_nat.induct)
  case (1 n)
  show ?case
  proof (cases "n < 10")
    case True
    then show ?thesis by (subst str_nat.simps) (simp add: dec_value_def)
  next
    case False
    with 1 have "dec_value (str_nat (n div 10)) = n div 10" by simp
    with False show ?thesis by (subst str_nat.simps) (simp add: dec_value_snoc)
  qed
qed

lemma length_str_nat_100: "n < 100 \<Longrightarrow> length (str_nat n) \<le> 2"
proof -
  assume a: "n < 100"
  show ?thesis
  proof (cases "n < 10")
    case True
    then show ?thesis by (subst str_nat.simps) simp
  next
    case False
    from a have "n div 10 < 10" by simp
    then have "str_nat (n div 10) = [48 + n div 10]" by (subst str_nat.simps) simp
    with False show ?thesis by (subst str_nat.simps) simp
  qed
qed

lemma dec_value_zeros: "dec_value (replicate k 48 @ s) = dec_value s"
proof -
  have "foldl (\<lambda>n c. 10 * n + (c - 48)) 0 (replicate k 48) = (0::nat)"
    by (induction k) simp_all
  then show ?thesis by (simp add: dec_value_def)
qed

lemma zfill_two:
  assumes "length s \<le> 2" "list_all is_ascii_digit s"
  shows "length (zfill 2 s) = 2 \<and> list_all is_ascii_digit (zfill 2 s) \<and> dec_value (zfill 2 s) = dec_value s"
  using assms by (auto simp: zfill_def dec_value_zeros is_ascii_digit_def list_all_iff)

lemma round_half_even_near: "\<bar>of_int (round_half_even y) - y\<bar> \<le> 1 / 2"
proof -
  define r where "r = y - of_int \<lfloor>y\<rfloor>"
  have r: "0 \<le> r" "r < 1"
    unfolding r_def by linarith+
  have y: "y = of_int \<lfloor>y\<rfloor> + r"
    by (simp add: r_def)
  have "\<bar>of_int (round_half_even y) - (of_int \<lfloor>y\<rfloor> + r)\<bar> \<le> 1 / 2"
    using r unfolding round_half_even_def Let_def r_def [symmetric]
    by (auto simp: abs_if)
  with y show ?thesis by simp
qed

lemma round_half_even_nonneg: "0 \<le> y \<Longrightarrow> 0 \<le> round_half_even y"
  by (auto simp: round_half_even_def Let_def)

lemma format_f_two:
  assumes "0 \<le> x"
  shows "\<exists>ip fp. format_f 2 x = ip @ ascii ''.'' @ fp \<and> ip \<noteq> [] \<and> list_all is_ascii_digit ip \<and>
           length fp = 2 \<and> list_all is_ascii_digit fp \<and>
           \<bar>of_nat (dec_value ip) + of_nat (dec_value fp) / 100 - x\<bar> \<le> 1 / 200"
proof -
  define n where "n = nat (round_half_even (\<bar>x\<bar> * 10 ^ 2))"
  define ip where "ip = str_nat (n div 10 ^ 2)"
  define fp where "fp = zfill 2 (str_nat (n mod 10 ^ 2))"
  have f: "format_f 2 x = ip @ ascii ''.'' @ fp"
    using assms by (simp add: format_f_def n_def ip_def fp_def Let_def)
  have ip: "ip \<noteq> [] \<and> list_all is_ascii_digit ip \<and> dec_value ip = n div 100"
    by (simp add: ip_def str_nat_digits dec_value_str_nat)
  have "length (str_nat (n mod 100)) \<le> 2" by (rule length_str_nat_100) simp
  then have fp: "length fp = 2 \<and> list_all is_ascii_digit fp \<and> dec_value fp = n mod 100"
    using zfill_two [of "str_nat (n mod 100)"] by (simp add: fp_def str_nat_digits dec_value_str_nat)
  have "0 \<le> round_half_even (x * 100)" using assms by (intro round_half_even_nonneg) simp
  then have n: "(of_nat n :: rat) = of_int (round_half_even (x * 100))"
    using assms by (simp add: n_def)
  have "(of_nat (n div 100) :: rat) + of_nat (n mod 100) / 100 = of_nat n / 100"
  proof -
    have "n = 100 * (n div 100) + n mod 100" by simp
    then have "(of_nat n :: rat) = 100 * of_nat (n div 100) + of_nat (n mod 100)"
      by (metis of_nat_add of_nat_mult of_nat_numeral)
    then show ?thesis by simp
  qed
  then have eq: "of_nat (dec_value ip) + of_nat (dec_value fp) / 100 = (of_nat n / 100 :: rat)"
    using ip fp by simp
  have "\<bar>(of_nat n :: rat) - x * 100\<bar> \<le> 1 / 2"
    unfolding n by (rule round_half_even_near)
  then have "\<bar>(of_nat n / 100 :: rat) - x\<bar> \<le> 1 / 200"
    by (simp add: abs_if split: if_splits)
  then have "\<bar>of_nat (dec_value ip) + of_nat (dec_value fp) / 100 - x\<bar> \<le> 1 / 200"
    by (simp only: eq)
  with f ip fp show ?thesis by blast
qed


section \<open>The sentences of the summary\<close>

lemma format_f_two_decimals: "0 \<le> x \<Longrightarrow> two_decimals (format_f 2 x) x"
  unfolding two_decimals_def by (rule format_f_two)

lemma generate_summary_average:
  assumes "results \<noteq> []" and "dropna (map price results) \<noteq> []"
  shows "generate_summary results fs =
         summary_head results fs @ ascii '' Average price is around ''
           @ avg_str (mean (dropna (map price results))) @ ascii ''.''"
  using assms by (simp add: generate_summary_def Let_def)

lemma generate_summary_no_price:
  assumes "results \<noteq> []" and "dropna (map price results) = []"
  shows "generate_summary results fs = summary_head results fs"
  using assms by (simp add: generate_summary_def Let_def)

lemma avg_str_crore:
  assumes "10000000 \<le> a"
  shows "\<exists>t. avg_str a = currency @ t @ ascii '' Cr'' \<and> two_decimals t (a / 10000000)"
proof -
  from assms have "0 \<le> a / 10000000" by simp
  then have "two_decimals (format_f 2 (a / 10000000)) (a / 10000000)"
    by (rule format_f_two_decimals)
  with assms show ?thesis by (auto simp: avg_str_def)
qed

lemma spec_pattern_under_zero:
  "re_search spec_cr_rx (lower (ascii ''under 0 cr'')) = Some (ascii ''0'') \<and>
   py_float (ascii ''0'') = Some 0"
  by code_simp


section \<open>The claims\<close>

text \<open>
  C5. For every filter, the summary of an empty result sequence is the fixed guidance
  message, whatever the filter holds.
\<close>

theorem generate_summary_empty:
  "generate_summary [] fs =
     ascii ''No properties found matching your criteria. Try adjusting your budget or location preferences.''"
  by (simp add: generate_summary_def no_results_def)

text \<open>
  C2. For every query text, \<open>parse_query\<close> returns a filter and raises no error, and a
  dimension whose pattern is absent from the lower-cased query has a null field. The
  only operation of \<open>parse_query\<close> that can raise is \<open>float\<close>, and it is never reached:
  see \<open>extract_budget_lower\<close>.
\<close>

theorem parse_query_total:
  "\<exists>f. parse_query q = Inr f \<and>
     ((\<forall>entry \<in> set cities. \<not> alias_occurs (lower q) entry) \<longrightarrow> city f = None) \<and>
     (re_search bhk_rx (lower q) = None \<longrightarrow> bhk f = None) \<and>
     (re_search cr_rx (lower q) = None \<and> re_search lakh_rx (lower q) = None
        \<longrightarrow> budget_max f = None) \<and>
     (\<not> substr_in (ascii ''ready'') (lower q) \<and> \<not> substr_in (ascii ''construction'') (lower q)
        \<longrightarrow> possession f = None)"
  by (simp add: parse_query_returns extract_city_none extract_bhk_none extract_possession_none)

theorem parse_query_total_witness:
  "\<exists>f. parse_query (ascii ''hello there'') = Inr f \<and> city f = None \<and> bhk f = None \<and>
     budget_max f = None \<and> possession f = None"
proof -
  let ?q = "ascii ''hello there''"
  have c: "\<forall>entry \<in> set cities. \<not> alias_occurs (lower ?q) entry" by code_simp
  have b: "re_search bhk_rx (lower ?q) = None" by code_simp
  have u: "re_search cr_rx (lower ?q) = None \<and> re_search lakh_rx (lower ?q) = None" by code_simp
  have p: "\<not> substr_in (ascii ''ready'') (lower ?q) \<and> \<not> substr_in (ascii ''construction'') (lower ?q)"
    by code_simp
  from parse_query_total [of ?q] c b u p show ?thesis by blast
qed

text \<open>
  C1 at \<open>pune mumbai\<close>. Aliases of Pune and of Mumbai occur in the query and Pune is
  iterated first, so the claim gives Pune; the parsed city is Mumbai. The \<open>break\<close> leaves
  the loop over the aliases of one city only, the loop over the cities goes on, and the
  last city with an alias in the query stands (\<open>parse_query_city_last\<close>).
\<close>

theorem parse_query_city_counterexample:
  "substr_in (ascii ''pune'') (lower (ascii ''pune mumbai'')) \<and>
   substr_in (ascii ''mumbai'') (lower (ascii ''pune mumbai'')) \<and>
   parse_query (ascii ''pune mumbai'') =
     Inr \<lparr>city = Some (ascii ''Mumbai''), bhk = None, budget_max = None, possession = None\<rparr> \<and>
   title (ascii ''pune'') = ascii ''Pune'' \<and> ascii ''Mumbai'' \<noteq> ascii ''Pune''"
  by code_simp

text \<open>
  C4 at \<open>under 2 cr under 50 lakh\<close>. Both budget patterns of the claim occur in the
  query, with the numbers 2 and 50 (\<open>spec_patterns_two_budgets\<close>), so the claim gives the
  budget 5,000,000; the parsed budget is null. The patterns of the source file ask for
  U+201A and U+00C7 after \<open>under\<close> and match no lower-cased query. The order of the two
  assignments is as the claim has it (\<open>budget_lakh_overrides_crore\<close>), on texts no
  query gives.
\<close>

theorem parse_query_two_budgets:
  "parse_query (ascii ''under 2 cr under 50 lakh'') = Inr no_filters"
  by code_simp

text \<open>
  C3, as stated, fails twice. With the non-null budget 0 the row priced 100 is returned,
  though 100 is not at most 0: the budget is applied under \<open>if filters['budget_max']\<close>,
  and 0 is false. With the limit -1 a table of two rows gives one row, more than -1:
  \<open>head(-1)\<close> drops the last row.
\<close>

theorem search_properties_counterexample:
  "search_properties [priced 100] (no_filters\<lparr>budget_max := Some 0\<rparr>) 10 = [priced 100] \<and>
   price (priced 100) = Some 100 \<and> \<not> (100 \<le> (0::rat)) \<and>
   length (search_properties [priced 1, priced 2] no_filters (- 1)) = 1 \<and>
   \<not> (1 \<le> (- 1::int))"
  by code_simp

text \<open>
  C3, amended. For every table, every limit that is not negative and every filter whose
  non-null fields are neither zero nor empty (and whose city is a plain name, without
  characters special to regular expressions): the result has at most \<open>limit\<close> rows, every
  row of it satisfies every non-null predicate of the filter, the rows are in table order,
  and they are the first at most \<open>limit\<close> rows of the table that satisfy the filter.
\<close>

theorem search_properties_sound:
  assumes "0 \<le> limit"
    and "city fs \<noteq> Some []" "bhk fs \<noteq> Some []"
    and "budget_max fs \<noteq> Some 0" "possession fs \<noteq> Some []"
    and "case city fs of None \<Rightarrow> True | Some c \<Rightarrow> plain_pattern c"
  shows "length (search_properties df fs limit) \<le> nat limit \<and>
         (\<forall>row \<in> set (search_properties df fs limit). satisfies fs row) \<and>
         subseq (search_properties df fs limit) df \<and>
         search_properties df fs limit = take (nat limit) (filter (satisfies fs) df)"
proof -
  have e: "search_properties df fs limit = take (nat limit) (filter (satisfies fs) df)"
    using assms(1-5) by (rule search_properties_take)
  have l: "length (take (nat limit) (filter (satisfies fs) df)) \<le> nat limit"
    by simp
  have a: "\<forall>row \<in> set (take (nat limit) (filter (satisfies fs) df)). satisfies fs row"
  proof
    fix row
    assume "row \<in> set (take (nat limit) (filter (satisfies fs) df))"
    then have "row \<in> set (filter (satisfies fs) df)"
      by (rule in_set_takeD)
    then show "satisfies fs row"
      by simp
  qed
  have s: "subseq (take (nat limit) (filter (satisfies fs) df)) df"
    by (rule subseq_take_filter)
  from l a s show ?thesis
    unfolding e by blast
qed

theorem search_properties_sound_witness:
  "length (search_properties pune_rows pune_filter 1) \<le> nat 1 \<and>
   subseq (search_properties pune_rows pune_filter 1) pune_rows \<and>
   search_properties pune_rows pune_filter 1 =
     [row_of (Some (ascii ''Baner Road, PUNE'')) (Some (ascii ''3BHK'')) (Some 9500000) None]"
proof -
  have h: "city pune_filter \<noteq> Some []" "bhk pune_filter \<noteq> Some []"
    "budget_max pune_filter \<noteq> Some 0" "possession pune_filter \<noteq> Some []"
    by (simp_all add: pune_filter_def ascii_def)
  have p: "case city pune_filter of None \<Rightarrow> True | Some c \<Rightarrow> plain_pattern c"
    by code_simp
  have v: "search_properties pune_rows pune_filter 1 =
     [row_of (Some (ascii ''Baner Road, PUNE'')) (Some (ascii ''3BHK'')) (Some 9500000) None]"
    by code_simp
  have "length (search_properties pune_rows pune_filter 1) \<le> nat 1 \<and>
        (\<forall>row \<in> set (search_properties pune_rows pune_filter 1). satisfies pune_filter row) \<and>
        subseq (search_properties pune_rows pune_filter 1) pune_rows \<and>
        search_properties pune_rows pune_filter 1 =
          take (nat 1) (filter (satisfies pune_filter) pune_rows)"
    by (rule search_properties_sound [OF _ h p]) simp
  with v show ?thesis by blast
qed

text \<open>
  C9, as stated, fails for the limit -1: the search of three rows gives the first two, and
  the search of these two gives the first one.
\<close>

theorem search_idempotent_counterexample:
  "search_properties [priced 1, priced 2, priced 3] no_filters (- 1) = [priced 1, priced 2] \<and>
   search_properties (search_properties [priced 1, priced 2, priced 3] no_filters (- 1))
     no_filters (- 1) = [priced 1] \<and>
   [priced 1] \<noteq> [priced 1, priced 2]"
  by code_simp

text \<open>
  C9, amended. For every table, every filter and every limit that is not negative, the
  search of the result of a search, with the same filter and limit, is that result.
\<close>

theorem search_idempotent:
  assumes "0 \<le> limit"
  shows "search_properties (search_properties df fs limit) fs limit = search_properties df fs limit"
proof -
  have "filter (keeps fs) (take (nat limit) (filter (keeps fs) df)) =
        take (nat limit) (filter (keeps fs) df)"
    by (rule filter_True) (auto dest: in_set_takeD)
  then show ?thesis
    using assms by (simp add: search_properties_eq df_head_nonneg)
qed

theorem search_idempotent_witness:
  "search_properties (search_properties pune_rows pune_filter 2) pune_filter 2 =
   search_properties pune_rows pune_filter 2 \<and>
   length (search_properties pune_rows pune_filter 2) = 2"
proof -
  have l: "length (search_properties pune_rows pune_filter 2) = 2" by code_simp
  have "search_properties (search_properties pune_rows pune_filter 2) pune_filter 2 =
        search_properties pune_rows pune_filter 2"
    by (rule search_idempotent) simp
  with l show ?thesis by blast
qed

text \<open>
  C6. For every query text without an alias of a city, without a match of the unit-type
  pattern and without the words \<open>ready\<close> and \<open>construction\<close> (the budget patterns never
  match), \<open>parse_query\<close> returns the filter with four null fields; with that filter the
  search of any table is \<open>head(limit)\<close> of the table, the first \<open>limit\<close> rows unchanged.
\<close>

theorem parse_query_no_tokens:
  assumes "\<forall>entry \<in> set cities. \<not> alias_occurs (lower q) entry"
    and "re_search bhk_rx (lower q) = None"
    and "\<not> substr_in (ascii ''ready'') (lower q)"
    and "\<not> substr_in (ascii ''construction'') (lower q)"
  shows "parse_query q = Inr no_filters \<and>
         search_properties df no_filters limit = df_head limit df \<and>
         (0 \<le> limit \<longrightarrow> search_properties df no_filters limit = take (nat limit) df)"
  using assms
  by (simp add: parse_query_returns extract_city_none extract_bhk_none extract_possession_none
      no_filters_def [symmetric] search_no_filters df_head_nonneg)

theorem parse_query_no_tokens_witness:
  "parse_query (ascii ''Show me something nice'') = Inr no_filters \<and>
   search_properties [priced 1, priced 2, priced 3] no_filters 2 = [priced 1, priced 2]"
proof -
  let ?q = "ascii ''Show me something nice''"
  have c: "\<forall>entry \<in> set cities. \<not> alias_occurs (lower ?q) entry" by code_simp
  have b: "re_search bhk_rx (lower ?q) = None" by code_simp
  have r: "\<not> substr_in (ascii ''ready'') (lower ?q)" by code_simp
  have u: "\<not> substr_in (ascii ''construction'') (lower ?q)" by code_simp
  have t: "take (nat 2) [priced 1, priced 2, priced 3] = [priced 1, priced 2]"
    by code_simp
  have z: "(0::int) \<le> 2" by simp
  from parse_query_no_tokens [OF c b r u, of "[priced 1, priced 2, priced 3]" 2] z
  have "parse_query ?q = Inr no_filters \<and>
        search_properties [priced 1, priced 2, priced 3] no_filters 2 =
          take (nat 2) [priced 1, priced 2, priced 3]"
    by blast
  then show ?thesis by (simp only: t)
qed

text \<open>
  C7 at its own example. For the listings priced 9,000,000 and 11,000,000 the second
  sentence is there, the mean is 10,000,000 and it is written in crores with two decimals,
  \<open>1.00 Cr\<close>; but the text before the amount is the three characters U+201A U+00C7 U+03C0
  of the source file, not the rupee sign U+20B9 of the claim. The general form of the
  sentence is \<open>generate_summary_average\<close>, \<open>generate_summary_no_price\<close> and
  \<open>avg_str_crore\<close>.
\<close>

theorem generate_summary_average_example:
  "generate_summary [priced 9000000, priced 11000000] no_filters =
     ascii ''Found 2 properties. Average price is around '' @ [8218, 199, 960] @ ascii ''1.00 Cr.'' \<and>
   [8218, 199, 960] \<noteq> [8377::nat]"
  by code_simp

text \<open>
  C8. For every listing, the price line of the card is: for a price of at least
  10,000,000, the price in crores written with two decimal places and \<open>Cr\<close>; for a price
  strictly between 0 and 10,000,000, the price in lakhs written with two decimal places
  and \<open>L\<close>; for a missing or non-positive price, \<open>Price on request\<close>.
\<close>

theorem price_str_buckets:
  "(\<forall>p. price row = Some p \<and> 10000000 \<le> p \<longrightarrow>
      (\<exists>t. price_str row = currency @ t @ ascii '' Cr'' \<and> two_decimals t (p / 10000000))) \<and>
   (\<forall>p. price row = Some p \<and> 0 < p \<and> p < 10000000 \<longrightarrow>
      (\<exists>t. price_str row = currency @ t @ ascii '' L'' \<and> two_decimals t (p / 100000))) \<and>
   (price row = None \<or> (\<exists>p. price row = Some p \<and> p \<le> 0) \<longrightarrow>
      price_str row = ascii ''Price on request'')"
proof (intro conjI allI impI)
  fix p
  assume a: "price row = Some p \<and> 10000000 \<le> p"
  then have "two_decimals (format_f 2 (p / 10000000)) (p / 10000000)"
    by (intro format_f_two_decimals) simp
  moreover from a have "price_str row = currency @ format_f 2 (p / 10000000) @ ascii '' Cr''"
    by (simp add: price_str_def)
  ultimately show "\<exists>t. price_str row = currency @ t @ ascii '' Cr'' \<and> two_decimals t (p / 10000000)"
    by blast
next
  fix p
  assume a: "price row = Some p \<and> 0 < p \<and> p < 10000000"
  then have "two_decimals (format_f 2 (p / 100000)) (p / 100000)"
    by (intro format_f_two_decimals) simp
  moreover from a have "price_str row = currency @ format_f 2 (p / 100000) @ ascii '' L''"
    by (simp add: price_str_def)
  ultimately show "\<exists>t. price_str row = currency @ t @ ascii '' L'' \<and> two_decimals t (p / 100000)"
    by blast
next
  assume "price row = None \<or> (\<exists>p. price row = Some p \<and> p \<le> 0)"
  then show "price_str row = ascii ''Price on request''"
    by (auto simp: price_str_def)
qed

theorem price_str_buckets_witness:
  "(\<exists>t. price_str (priced 12345678) = currency @ t @ ascii '' Cr'' \<and>
        two_decimals t (12345678 / 10000000)) \<and>
   price_str (priced 12345678) = currency @ ascii ''1.23 Cr'' \<and>
   (\<exists>t. price_str (priced 1234567) = currency @ t @ ascii '' L'' \<and>
        two_decimals t (1234567 / 100000)) \<and>
   price_str (priced 1234567) = currency @ ascii ''12.35 L'' \<and>
   price_str (priced 0) = ascii ''Price on request'' \<and>
   price_str (row_of None None None None) = ascii ''Price on request''"
proof -
  have c: "price (priced 12345678) = Some 12345678 \<and> (10000000::rat) \<le> 12345678"
    by (simp add: priced_def row_of_def)
  have l: "price (priced 1234567) = Some 1234567 \<and> (0::rat) < 1234567 \<and> (1234567::rat) < 10000000"
    by (simp add: priced_def row_of_def)
  have z: "price (priced 0) = None \<or> (\<exists>p. price (priced 0) = Some p \<and> p \<le> 0)"
    by (simp add: priced_def row_of_def)
  have n: "price (row_of None None None None) = None \<or>
           (\<exists>p. price (row_of None None None None) = Some p \<and> p \<le> 0)"
    by (simp add: row_of_def)
  have v: "price_str (priced 12345678) = currency @ ascii ''1.23 Cr'' \<and>
           price_str (priced 1234567) = currency @ ascii ''12.35 L''"
    by code_simp
  from price_str_buckets [of "priced 12345678"] c
  have 1: "\<exists>t. price_str (priced 12345678) = currency @ t @ ascii '' Cr'' \<and>
        two_decimals t (12345678 / 10000000)" by blast
  from price_str_buckets [of "priced 1234567"] l
  have 2: "\<exists>t. price_str (priced 1234567) = currency @ t @ ascii '' L'' \<and>
        two_decimals t (1234567 / 100000)" by blast
  from price_str_buckets [of "priced 0"] z
  have 3: "price_str (priced 0) = ascii ''Price on request''" by blast
  from price_str_buckets [of "row_of None None None None"] n
  have 4: "price_str (row_of None None None None) = ascii ''Price on request''" by blast
  from 1 2 3 4 v show ?thesis by blast
qed

text \<open>
  C10 at its own example. The query \<open>under 0 cr\<close> gives no budget at all, not the budget
  0: the crore pattern of the source file asks for U+201A and U+00C7 after \<open>under\<close>. The
  pattern of the specification matches it with the number 0
  (\<open>spec_pattern_under_zero\<close>). That a budget of 0 is not applied by the search and
  not named by the summary is \<open>search_budget_zero\<close> and \<open>summary_budget_zero\<close>.
\<close>

theorem parse_query_under_zero_crore:
  "parse_query (ascii ''under 0 cr'') = Inr no_filters"
  by code_simp

end
